theory Spec2Isabelle
  imports Complex_Main
begin

section \<open>Values, series and frames\<close>

text \<open>
  The feature library of \<^verbatim>\<open>functime/feature_extraction/tsfresh.py\<close> works on polars
  series. A series is modelled as a list whose entries are either a number or the
  missing marker (polars \<^verbatim>\<open>null\<close>, here \<open>None\<close>). Float64 and integer cells are
  idealised as exact reals; the rounding of Float64 arithmetic is modelled where a
  property depends on it, in the two percentages \<^verbatim>\<open>count_below\<close> and
  \<^verbatim>\<open>count_above\<close>. The polars operations are
  those of the 0.19 API the source is written against (\<^verbatim>\<open>cumsum\<close>,
  \<^verbatim>\<open>shift_and_fill\<close>, the \<^verbatim>\<open>counts\<close> column of \<^verbatim>\<open>value_counts\<close>).
  Every Python exception is a value of the type \<open>error\<close>.
\<close>

datatype error =
    IndexError | TypeError | KeyError | ValueError | ZeroDivisionError
  | ComputeError | AttributeError | SystemExit

type_synonym series = "real option list"

type_synonym frame = "(string \<times> series) list"

definition drop_nulls :: "'a option list \<Rightarrow> 'a list" where
  "drop_nulls xs = map the (filter (\<lambda>v. v \<noteq> None) xs)"

text \<open>
  The sum of a column skips the nulls; a column without a non-null cell sums to 0.
\<close>

definition sum_s :: "series \<Rightarrow> real option" where
  "sum_s xs = Some (sum_list (drop_nulls xs))"

definition mul_opt :: "real option \<Rightarrow> real option \<Rightarrow> real option" where
  "mul_opt a b = (case (a, b) of (Some p, Some q) \<Rightarrow> Some (p * q) | _ \<Rightarrow> None)"

text \<open>
  The dot product multiplies row by row and sums. A column of one row is broadcast
  over the other column; any other pair of different lengths is a
  \<^verbatim>\<open>ComputeError\<close>.
\<close>

definition dot :: "series \<Rightarrow> series \<Rightarrow> error + real option" where
  "dot a b =
     (if length a = length b then Inr (sum_s (map (\<lambda>(p, q). mul_opt p q) (zip a b)))
      else if length a = 1 then Inr (sum_s (map (\<lambda>q. mul_opt (hd a) q) b))
      else if length b = 1 then Inr (sum_s (map (\<lambda>p. mul_opt p (hd b)) a))
      else Inl ComputeError)"

definition columns :: "frame \<Rightarrow> string list" where
  "columns df = map fst df"

definition shape :: "frame \<Rightarrow> nat \<times> nat" where
  "shape df = ((case df of [] \<Rightarrow> 0 | c # _ \<Rightarrow> length (snd c)), length df)"

definition get_column :: "frame \<Rightarrow> string \<Rightarrow> error + series" where
  "get_column df name = (case map_of df name of None \<Rightarrow> Inl KeyError | Some c \<Rightarrow> Inr c)"

definition filter_mask :: "'a list \<Rightarrow> bool list \<Rightarrow> 'a list" where
  "filter_mask c m = map fst (filter snd (zip c m))"

definition frame_filter :: "frame \<Rightarrow> bool list \<Rightarrow> frame" where
  "frame_filter df m = map (\<lambda>(name, c). (name, filter_mask c m)) df"

definition frame_sum :: "frame \<Rightarrow> frame" where
  "frame_sum df = map (\<lambda>(name, c). (name, [sum_s c])) df"

text \<open>
  \<^verbatim>\<open>DataFrame.item()\<close> without a row and a column raises \<^verbatim>\<open>ValueError\<close> unless the
  frame has exactly one row and one column.
\<close>

definition item :: "frame \<Rightarrow> error + real option" where
  "item df = (if shape df = (1, 1) then Inr (hd (snd (hd df))) else Inl ValueError)"

text \<open>
  \<^verbatim>\<open>Series.value_counts()\<close>: a frame of two columns, the distinct values (under the
  name of the series, \<^verbatim>\<open>""\<close> for an unnamed one) and their \<^verbatim>\<open>counts\<close>. The order
  of the rows is the order of first occurrence.
\<close>

fun distinct_values :: "'a list \<Rightarrow> 'a list" where
  "distinct_values [] = []"
| "distinct_values (v # vs) = v # distinct_values (filter (\<lambda>w. w \<noteq> v) vs)"

definition value_counts :: "series \<Rightarrow> frame" where
  "value_counts x =
     [('''', distinct_values x),
      (''counts'', map (\<lambda>v. Some (real (count_list x v))) (distinct_values x))]"

definition counts_gt_1 :: "frame \<Rightarrow> bool list" where
  "counts_gt_1 df =
     (case map_of df ''counts'' of None \<Rightarrow> []
      | Some c \<Rightarrow> map (\<lambda>v. case v of None \<Rightarrow> False | Some k \<Rightarrow> k > 1) c)"

section \<open>Reoccurring values\<close>

text \<open>
  \<^verbatim>\<open>
  counts = x.value_counts().filter(pl.col("counts") > 1)
  return counts.get_column(counts.columns[0]).dot(counts.get_column(counts.columns[0]))
  \<close>
\<close>

definition sum_reocurring_points :: "series \<Rightarrow> error + real option" where
  "sum_reocurring_points x =
     (let counts = frame_filter (value_counts x) (counts_gt_1 (value_counts x))
      in case get_column counts (columns counts ! 0) of
           Inl e \<Rightarrow> Inl e
         | Inr a \<Rightarrow>
             (case get_column counts (columns counts ! 0) of
                Inl e \<Rightarrow> Inl e
              | Inr b \<Rightarrow> dot a b))"

text \<open>
  \<^verbatim>\<open>
  X = x.value_counts().filter(pl.col("counts") > 1).sum()
  return X.item()
  \<close>
\<close>

definition sum_reocurring_values :: "series \<Rightarrow> error + real option" where
  "sum_reocurring_values x =
     (let X = frame_sum (frame_filter (value_counts x) (counts_gt_1 (value_counts x)))
      in item X)"

section \<open>Scalars and aggregations\<close>

text \<open>
  The functions typed \<^verbatim>\<open>TIME_SERIES_T\<close> are written as polars expressions; the model
  gives the value such an expression has on a series. The functions typed
  \<^verbatim>\<open>pl.Series\<close> run on Python scalars and raise Python exceptions.

  A scalar is null (also Python's \<^verbatim>\<open>None\<close>), a number, or the outcome of a float
  division by zero (\<^verbatim>\<open>NaN\<close> or an infinity), which polars returns instead of
  raising. Addition, subtraction and multiplication keep a non-finite operand
  non-finite; null wins over both.
\<close>

datatype scalar = Null | NonFinite | Num real

definition truediv :: "real option \<Rightarrow> real option \<Rightarrow> scalar" where
  "truediv a b =
     (case (a, b) of
        (Some p, Some q) \<Rightarrow> (if q = 0 then NonFinite else Num (p / q))
      | _ \<Rightarrow> Null)"

fun lift2 :: "(real \<Rightarrow> real \<Rightarrow> real) \<Rightarrow> scalar \<Rightarrow> scalar \<Rightarrow> scalar" where
  "lift2 f Null b = Null"
| "lift2 f a Null = Null"
| "lift2 f NonFinite b = NonFinite"
| "lift2 f a NonFinite = NonFinite"
| "lift2 f (Num p) (Num q) = Num (f p q)"

definition of_opt :: "real option \<Rightarrow> scalar" where
  "of_opt a = (case a of None \<Rightarrow> Null | Some p \<Rightarrow> Num p)"

text \<open>
  \<^verbatim>\<open>count\<close> is the number of entries (in polars 0.19 a null is counted as well);
  \<^verbatim>\<open>mean\<close>, \<^verbatim>\<open>var\<close>, \<^verbatim>\<open>median\<close>, \<^verbatim>\<open>max\<close> and \<^verbatim>\<open>min\<close> skip the nulls
  and are null when nothing is left (for \<^verbatim>\<open>var\<close>: when no more than \<open>ddof\<close>
  values are left).
\<close>

definition count_s :: "'a option list \<Rightarrow> nat" where
  "count_s x = length x"

definition mean_s :: "series \<Rightarrow> real option" where
  "mean_s x =
     (let v = drop_nulls x
      in if v = [] then None else Some (sum_list v / real (length v)))"

definition var_s :: "nat \<Rightarrow> series \<Rightarrow> real option" where
  "var_s ddof x =
     (let v = drop_nulls x; n = length v
      in if n \<le> ddof then None
         else Some (sum_list (map (\<lambda>a. (a - sum_list v / real n) ^ 2) v) / real (n - ddof)))"

definition median_s :: "series \<Rightarrow> real option" where
  "median_s x =
     (let v = sort (drop_nulls x); n = length v
      in if n = 0 then None
         else if odd n then Some (v ! (n div 2))
         else Some ((v ! (n div 2 - 1) + v ! (n div 2)) / 2))"

definition max_s :: "series \<Rightarrow> real option" where
  "max_s x = (let v = drop_nulls x in if v = [] then None else Some (Max (set v)))"

definition min_s :: "series \<Rightarrow> real option" where
  "min_s x = (let v = drop_nulls x in if v = [] then None else Some (Min (set v)))"

text \<open>
  \<^verbatim>\<open>filter\<close> keeps the rows whose predicate is true; a null predicate drops the row.
  A comparison with a null is null.
\<close>

definition filter_s :: "'a list \<Rightarrow> bool option list \<Rightarrow> 'a list" where
  "filter_s c m = map fst (filter (\<lambda>p. snd p = Some True) (zip c m))"

definition cmp_s :: "(real \<Rightarrow> real \<Rightarrow> bool) \<Rightarrow> series \<Rightarrow> real option \<Rightarrow> bool option list" where
  "cmp_s rel x t =
     map (\<lambda>v. case (v, t) of (Some p, Some q) \<Rightarrow> Some (rel p q) | _ \<Rightarrow> None) x"

section \<open>Descriptors on expressions\<close>

text \<open>
  \<^verbatim>\<open>
  y = x.var(ddof=0)
  return y > y.sqrt()
  \<close>
\<close>

definition var_greater_than_std :: "series \<Rightarrow> bool option" where
  "var_greater_than_std x =
     (let y = var_s 0 x in case y of None \<Rightarrow> None | Some v \<Rightarrow> Some (v > sqrt v))"

text \<open>
  The two percentages are computed in Float64, and a property of their sum depends on
  the rounding, so here the arithmetic is that of IEEE 754 binary64: the result of an
  operation is the exact result rounded to the nearest number with a significand of 53
  bits, a tie going to the even significand. \<open>pow2 e\<close> is \<open>2\<close> to the power \<open>e\<close>;
  \<open>binade k r\<close> is the exponent \<open>e\<close> with \<open>2 ^ e \<le> r < 2 ^ (e + 1)\<close> for a
  positive \<open>r\<close>, searched in at most \<open>k\<close> steps (1100 steps reach every exponent of a
  double); below the exponent \<open>- 1022\<close> the spacing of the subnormal numbers is used;
  a result of magnitude \<open>2 ^ 1024\<close> or more is an infinity.
\<close>

definition pow2 :: "int \<Rightarrow> real" where
  "pow2 e = (if 0 \<le> e then 2 ^ nat e else 1 / 2 ^ nat (- e))"

definition round_half_even :: "real \<Rightarrow> int" where
  "round_half_even q =
     (let f = \<lfloor>q\<rfloor>; d = q - of_int f
      in if d < 1 / 2 then f
         else if 1 / 2 < d then f + 1
         else if even f then f else f + 1)"

fun binade :: "nat \<Rightarrow> real \<Rightarrow> int" where
  "binade 0 r = 0"
| "binade (Suc k) r =
     (if r < 1 then binade k (2 * r) - 1
      else if 2 \<le> r then binade k (r / 2) + 1
      else 0)"

definition f64 :: "real \<Rightarrow> scalar" where
  "f64 r =
     (if r = 0 then Num 0
      else
        (let e = max (binade 1100 \<bar>r\<bar>) (- 1022);
             u = pow2 (e - 52);
             v = sgn r * (of_int (round_half_even (\<bar>r\<bar> / u)) * u)
         in if 2 ^ 1024 \<le> \<bar>v\<bar> then NonFinite else Num v))"

text \<open>
  The Float64 quotient of two counts (a zero divisor gives \<^verbatim>\<open>NaN\<close> or an infinity)
  and the Float64 product of a Float64 scalar with a number.
\<close>

definition truediv_f64 :: "real \<Rightarrow> real \<Rightarrow> scalar" where
  "truediv_f64 p q = (if q = 0 then NonFinite else f64 (p / q))"

definition mul_f64 :: "scalar \<Rightarrow> real \<Rightarrow> scalar" where
  "mul_f64 a c = (case a of Num p \<Rightarrow> f64 (p * c) | Null \<Rightarrow> Null | NonFinite \<Rightarrow> NonFinite)"

text \<open>
  \<^verbatim>\<open>
  return x.filter(x <= t).count().truediv(x.count()).mul(100)
  return x.filter(x >= t).count().truediv(x.count()).mul(100)
  \<close>
  The two counts are unsigned 32-bit integers, which Float64 holds exactly; the quotient
  is rounded, and so is its product with 100.
\<close>

definition count_below :: "series \<Rightarrow> real \<Rightarrow> scalar" where
  "count_below x t =
     mul_f64 (truediv_f64 (real (count_s (filter_s x (cmp_s (\<le>) x (Some t)))))
                          (real (count_s x)))
             100"

definition count_above :: "series \<Rightarrow> real \<Rightarrow> scalar" where
  "count_above x t =
     mul_f64 (truediv_f64 (real (count_s (filter_s x (cmp_s (\<ge>) x (Some t)))))
                          (real (count_s x)))
             100"


text \<open>
  \<^verbatim>\<open>shift(periods)\<close> moves the entries right (left for a negative argument) and puts
  nulls in the vacated places; the length does not change.
\<close>

definition shift :: "int \<Rightarrow> 'a option list \<Rightarrow> 'a option list" where
  "shift periods x =
     (let n = length x
      in if periods \<ge> 0
         then take n (replicate (nat periods) None @ x)
         else drop (nat (- periods)) x @ replicate (min n (nat (- periods))) None)"

text \<open>
  \<^verbatim>\<open>
  if lag < 0:
      return None
  if lag == 0:
      return pl.lit(1.0)
  return (
      x.shift(periods=-lag).drop_nulls().sub(x.mean())
      .dot(x.shift(periods=lag).drop_nulls().sub(x.mean()))
      .truediv((x.count() - lag).mul(x.var(ddof=0)))
  )
  \<close>
\<close>

definition autocorr :: "series \<Rightarrow> int \<Rightarrow> error + scalar" where
  "autocorr x lag =
     (if lag < 0 then Inr Null
      else if lag = 0 then Inr (Num 1.0)
      else
        (case mean_s x of
           None \<Rightarrow> Inr Null
         | Some m \<Rightarrow>
             (case dot (map (\<lambda>v. Some (v - m)) (drop_nulls (shift (- lag) x)))
                       (map (\<lambda>v. Some (v - m)) (drop_nulls (shift lag x))) of
                Inl e \<Rightarrow> Inl e
              | Inr d \<Rightarrow>
                  Inr (truediv d
                         (map_option (\<lambda>v. (real (count_s x) - real_of_int lag) * v)
                            (var_s 0 x))))))"

section \<open>Descriptors on series\<close>

text \<open>
  \<^verbatim>\<open>
  mean_median_difference = abs(x.mean() - x.median())
  max_min_difference = x.max() - x.min()
  return mean_median_difference < r["r"] * max_min_difference
  \<close>
  The parameter is subscripted with the key \<^verbatim>\<open>"r"\<close>: a dictionary answers (or raises
  \<^verbatim>\<open>KeyError\<close>), a plain number raises \<^verbatim>\<open>TypeError\<close>. On a series without a
  value the aggregations are \<^verbatim>\<open>None\<close> and the subtraction raises \<^verbatim>\<open>TypeError\<close>.
\<close>

datatype pyparam = PyFloat real | PyDict "(string \<times> real) list"

definition symmetry_looking :: "series \<Rightarrow> pyparam \<Rightarrow> error + bool" where
  "symmetry_looking x r =
     (case (mean_s x, median_s x) of
        (Some mean, Some median) \<Rightarrow>
          (let mean_median_difference = \<bar>mean - median\<bar>
           in case (max_s x, min_s x) of
                (Some mx, Some mn) \<Rightarrow>
                  (let max_min_difference = mx - mn
                   in case r of
                        PyFloat f \<Rightarrow> Inl TypeError
                      | PyDict d \<Rightarrow>
                          (case map_of d ''r'' of
                             None \<Rightarrow> Inl KeyError
                           | Some rv \<Rightarrow>
                               Inr (mean_median_difference < rv * max_min_difference)))
              | _ \<Rightarrow> Inl TypeError)
      | _ \<Rightarrow> Inl TypeError)"

text \<open>
  \<^verbatim>\<open>
  return (x[-1] - x[-2] - x[1] + x[0]) / (2 * (len(x) - 2))
  \<close>
  Indexing a series gives a Python scalar (\<^verbatim>\<open>None\<close> for a null) and raises
  \<^verbatim>\<open>IndexError\<close> out of range; arithmetic on \<^verbatim>\<open>None\<close> raises \<^verbatim>\<open>TypeError\<close>;
  a division by zero raises \<^verbatim>\<open>ZeroDivisionError\<close>. The operands are evaluated from
  left to right. A negative index counts from the end.
\<close>

definition getitem :: "'a list \<Rightarrow> int \<Rightarrow> error + 'a" where
  "getitem xs i =
     (if 0 \<le> i \<and> i < int (length xs) then Inr (xs ! nat i)
      else if i < 0 \<and> - int (length xs) \<le> i then Inr (xs ! nat (int (length xs) + i))
      else Inl IndexError)"

definition py_sub :: "real option \<Rightarrow> real option \<Rightarrow> error + real option" where
  "py_sub a b = (case (a, b) of (Some p, Some q) \<Rightarrow> Inr (Some (p - q)) | _ \<Rightarrow> Inl TypeError)"

definition py_add :: "real option \<Rightarrow> real option \<Rightarrow> error + real option" where
  "py_add a b = (case (a, b) of (Some p, Some q) \<Rightarrow> Inr (Some (p + q)) | _ \<Rightarrow> Inl TypeError)"

definition py_truediv :: "real option \<Rightarrow> real \<Rightarrow> error + real" where
  "py_truediv a b =
     (case a of None \<Rightarrow> Inl TypeError
      | Some p \<Rightarrow> if b = 0 then Inl ZeroDivisionError else Inr (p / b))"

definition bind :: "error + 'a \<Rightarrow> ('a \<Rightarrow> error + 'b) \<Rightarrow> error + 'b" where
  "bind m f = (case m of Inl e \<Rightarrow> Inl e | Inr v \<Rightarrow> f v)"

definition mean_second_derivative_central :: "series \<Rightarrow> error + real" where
  "mean_second_derivative_central x =
     bind (getitem x (- 1)) (\<lambda>a.
     bind (getitem x (- 2)) (\<lambda>b.
     bind (py_sub a b) (\<lambda>ab.
     bind (getitem x 1) (\<lambda>c.
     bind (py_sub ab c) (\<lambda>abc.
     bind (getitem x 0) (\<lambda>d.
     bind (py_add abc d) (\<lambda>num.
     py_truediv num (2 * (real (length x) - 2)))))))))"



section \<open>Run lengths\<close>

text \<open>
  \<^verbatim>\<open>
  lengths = (
      x.alias("orig").to_frame()
      .with_columns(shift=pl.col("orig").shift(periods=1))
      .with_columns(mask=pl.col("orig").ne(pl.col("shift")).fill_null(0).cumsum())
      .filter(pl.col("orig") == 1)
      .group_by(pl.col("mask"), maintain_order=True)
      .count()
      .get_column("count")
  )
  return lengths
  \<close>
  A comparison with a null is null; \<^verbatim>\<open>fill_null(0)\<close> makes it 0 (false);
  \<^verbatim>\<open>cumsum\<close> is the running sum, counting a true as 1;
  \<^verbatim>\<open>group_by(maintain_order=True).count()\<close> gives the size of each group of equal
  keys, the groups in the order of their first row.
\<close>

definition ne_s :: "bool option list \<Rightarrow> bool option list \<Rightarrow> bool option list" where
  "ne_s a b =
     map (\<lambda>(p, q). case (p, q) of (Some u, Some v) \<Rightarrow> Some (u \<noteq> v) | _ \<Rightarrow> None) (zip a b)"

definition fill_null :: "'a \<Rightarrow> 'a option list \<Rightarrow> 'a list" where
  "fill_null d xs = map (\<lambda>v. case v of None \<Rightarrow> d | Some u \<Rightarrow> u) xs"

fun cumsum_from :: "nat \<Rightarrow> nat list \<Rightarrow> nat list" where
  "cumsum_from acc [] = []"
| "cumsum_from acc (k # ks) = (acc + k) # cumsum_from (acc + k) ks"

definition cumsum :: "nat list \<Rightarrow> nat list" where
  "cumsum ks = cumsum_from 0 ks"

fun group_by_count :: "'k list \<Rightarrow> nat list" where
  "group_by_count [] = []"
| "group_by_count (k # ks) =
     Suc (count_list ks k) # group_by_count (filter (\<lambda>j. j \<noteq> k) ks)"

definition eq_1 :: "bool option list \<Rightarrow> bool option list" where
  "eq_1 m = map (map_option (\<lambda>b. b = True)) m"

definition get_length_sequences_where :: "bool option list \<Rightarrow> nat list" where
  "get_length_sequences_where x =
     (let orig = x;
          shift_col = shift 1 orig;
          mask = cumsum (map (\<lambda>b. if b then 1 else 0) (fill_null False (ne_s orig shift_col)));
          kept = filter_s mask (eq_1 orig)
      in group_by_count kept)"

text \<open>
  \<^verbatim>\<open>
  lengths = _get_length_sequences_where(x.cast(pl.Float64) < x.mean())
  strike = lengths.max() if lengths.len() > 0 else 0
  return strike
  \<close>
  and the same with the comparison turned round for the strike above the mean. Here
  \<open>x\<close> is a \<^verbatim>\<open>pl.Series\<close> and \<^verbatim>\<open>x.mean()\<close> a Python value: when the series has no
  value (it is empty, or every entry is missing) the mean is \<^verbatim>\<open>None\<close>, and the
  comparison of a Float64 series with \<^verbatim>\<open>None\<close> raises \<^verbatim>\<open>TypeError\<close>.
\<close>

definition longest_strike_below_mean :: "series \<Rightarrow> error + nat" where
  "longest_strike_below_mean x =
     (case mean_s x of
        None \<Rightarrow> Inl TypeError
      | Some m \<Rightarrow>
          Inr (let lengths = get_length_sequences_where (cmp_s (<) x (Some m))
               in if length lengths > 0 then Max (set lengths) else 0))"

definition longest_strike_above_mean :: "series \<Rightarrow> error + nat" where
  "longest_strike_above_mean x =
     (case mean_s x of
        None \<Rightarrow> Inl TypeError
      | Some m \<Rightarrow>
          Inr (let lengths = get_length_sequences_where (cmp_s (>) x (Some m))
               in if length lengths > 0 then Max (set lengths) else 0))"

text \<open>The number of rows of a boolean column that are true.\<close>

definition trues :: "bool option list \<Rightarrow> nat" where
  "trues m = length (filter (\<lambda>b. b = Some True) m)"


section \<open>Linear trend\<close>

text \<open>
  \<^verbatim>\<open>
  x_range = pl.int_range(1, x.len() + 1)
  beta = pl.cov(x, x_range) / x.var()
  alpha = x.mean() - beta * x_range.mean()
  resid = x - beta * x_range + alpha
  rss = resid.pow(2).sum()
  return {"slope": beta, "intercept": alpha, "rss": rss}
  \<close>
  \<^verbatim>\<open>pl.cov\<close> and \<^verbatim>\<open>var()\<close> divide by \<open>n - 1\<close>; the covariance is taken over the
  rows where both columns have a value.
\<close>

definition int_range :: "nat \<Rightarrow> nat \<Rightarrow> series" where
  "int_range lo hi = map (\<lambda>k. Some (real k)) [lo..<hi]"

definition both_present :: "series \<Rightarrow> series \<Rightarrow> (real \<times> real) list" where
  "both_present a b =
     map (\<lambda>(p, q). (the p, the q)) (filter (\<lambda>(p, q). p \<noteq> None \<and> q \<noteq> None) (zip a b))"

definition cov_s :: "series \<Rightarrow> series \<Rightarrow> real option" where
  "cov_s a b =
     (let ps = both_present a b; n = length ps
      in if n \<le> 1 then None
         else Some (sum_list (map (\<lambda>(p, q). (p - sum_list (map fst ps) / real n)
                                           * (q - sum_list (map snd ps) / real n)) ps)
                    / real (n - 1)))"

definition pow_sc :: "scalar \<Rightarrow> nat \<Rightarrow> scalar" where
  "pow_sc r k = (case r of Num p \<Rightarrow> Num (p ^ k) | Null \<Rightarrow> Null | NonFinite \<Rightarrow> NonFinite)"

definition sum_sc :: "scalar list \<Rightarrow> scalar" where
  "sum_sc rs =
     (let vs = filter (\<lambda>r. r \<noteq> Null) rs
      in if NonFinite \<in> set vs then NonFinite
         else Num (sum_list (map (\<lambda>r. case r of Num p \<Rightarrow> p | _ \<Rightarrow> 0) vs)))"

record trend =
  slope :: scalar
  intercept :: scalar
  rss :: scalar

definition linear_trend :: "series \<Rightarrow> trend" where
  "linear_trend x =
     (let x_range = int_range 1 (length x + 1);
          beta = truediv (cov_s x x_range) (var_s 1 x);
          alpha = lift2 (-) (of_opt (mean_s x)) (lift2 (*) beta (of_opt (mean_s x_range)));
          resid = map (\<lambda>(xi, ri). lift2 (+) (lift2 (-) (of_opt xi) (lift2 (*) beta (of_opt ri))) alpha)
                      (zip x x_range);
          rss = sum_sc (map (\<lambda>r. pow_sc r 2) resid)
      in \<lparr>slope = beta, intercept = alpha, rss = rss\<rparr>)"

text \<open>
  The ordinary least squares fit in the words of the specification: the slope is
  \<open>cov(index, x) / var(index)\<close>, and the residual sum of squares of a line is the sum of
  the squares of \<open>x[i] - (slope * i + intercept)\<close>, the index running from 1.
\<close>

definition ols_slope_spec :: "series \<Rightarrow> scalar" where
  "ols_slope_spec x =
     (let index = int_range 1 (length x + 1)
      in truediv (cov_s index x) (var_s 1 index))"

definition residual_sum_of_squares_spec :: "real list \<Rightarrow> real \<Rightarrow> real \<Rightarrow> real" where
  "residual_sum_of_squares_spec x b a =
     sum_list (map (\<lambda>(xi, i). (xi - (b * real i + a)) ^ 2) (zip x [1..<length x + 1]))"


section \<open>Changes inside a quantile corridor\<close>

text \<open>
  \<^verbatim>\<open>
  x = x.diff()
  if is_abs:
      x = x.abs()
  x = x.filter(
      x.is_between(
          x.quantile(ql, interpolation="linear"),
          x.quantile(qh, interpolation="linear"),
      ).and_(
          x.is_between(
              x.quantile(ql, interpolation="linear"),
              x.quantile(qh, interpolation="linear"),
          ).shift_and_fill(fill_value=False, periods=1)
      )
  )
  return x
  \<close>
  \<^verbatim>\<open>diff()\<close> keeps the length: the first entry is null, every other entry is the
  difference to its predecessor (null when one of the two is). \<^verbatim>\<open>quantile\<close> skips the
  nulls, interpolates linearly between the two nearest ranks, is null when no value is
  left and rejects a quantile outside \<open>[0, 1]\<close>. \<^verbatim>\<open>is_between\<close> includes both bounds.
  \<^verbatim>\<open>and_\<close> is the three-valued conjunction.
\<close>

definition diff_s :: "series \<Rightarrow> series" where
  "diff_s x =
     map (\<lambda>(a, b). case (a, b) of (Some p, Some q) \<Rightarrow> Some (p - q) | _ \<Rightarrow> None)
         (zip x (shift 1 x))"

definition abs_s :: "series \<Rightarrow> series" where
  "abs_s x = map (map_option abs) x"

definition quantile :: "series \<Rightarrow> real \<Rightarrow> error + real option" where
  "quantile x q =
     (if q < 0 \<or> 1 < q then Inl ComputeError
      else
        (let v = sort (drop_nulls x); n = length v
         in if n = 0 then Inr None
            else
              (let pos = (real n - 1) * q; lo = nat \<lfloor>pos\<rfloor>; hi = nat \<lceil>pos\<rceil>
               in Inr (Some (v ! lo + (pos - real lo) * (v ! hi - v ! lo))))))"

definition is_between :: "series \<Rightarrow> real option \<Rightarrow> real option \<Rightarrow> bool option list" where
  "is_between x lo hi =
     map (\<lambda>v. case (v, lo, hi) of
                (Some p, Some l, Some h) \<Rightarrow> Some (l \<le> p \<and> p \<le> h)
              | _ \<Rightarrow> None) x"

definition shift_and_fill :: "'a \<Rightarrow> nat \<Rightarrow> 'a option list \<Rightarrow> 'a option list" where
  "shift_and_fill fill_value periods m =
     take (length m) (replicate periods (Some fill_value) @ m)"

definition and_k :: "bool option \<Rightarrow> bool option \<Rightarrow> bool option" where
  "and_k a b =
     (if a = Some False \<or> b = Some False then Some False
      else if a = Some True \<and> b = Some True then Some True
      else None)"

definition change_quantiles :: "series \<Rightarrow> real \<Rightarrow> real \<Rightarrow> bool \<Rightarrow> error + series" where
  "change_quantiles x ql qh is_abs =
     (let x1 = diff_s x;
          x2 = (if is_abs then abs_s x1 else x1)
      in bind (quantile x2 ql) (\<lambda>lo.
         bind (quantile x2 qh) (\<lambda>hi.
         bind (quantile x2 ql) (\<lambda>lo'.
         bind (quantile x2 qh) (\<lambda>hi'.
           Inr (filter_s x2
                  (map (\<lambda>(a, b). and_k a b)
                       (zip (is_between x2 lo hi)
                            (shift_and_fill False 1 (is_between x2 lo' hi'))))))))))"

text \<open>
  The words of the specification: a difference lies in the corridor when it has a value
  between the two quantiles; the qualifying differences are those at a position whose
  own difference and whose predecessor both lie in the corridor; the descriptor of the
  specification is the average of their magnitudes, missing when there is none.
\<close>

definition in_corridor :: "real option \<Rightarrow> real option \<Rightarrow> real option \<Rightarrow> bool" where
  "in_corridor lo hi v =
     (case (v, lo, hi) of (Some p, Some l, Some h) \<Rightarrow> l \<le> p \<and> p \<le> h | _ \<Rightarrow> False)"

definition qualifying_changes :: "series \<Rightarrow> real option \<Rightarrow> real option \<Rightarrow> series" where
  "qualifying_changes d lo hi =
     map ((!) d)
       (filter (\<lambda>i. in_corridor lo hi (d ! i) \<and> in_corridor lo hi (d ! (i - 1)))
          [1..<length d])"

definition change_series :: "series \<Rightarrow> bool \<Rightarrow> series" where
  "change_series x is_abs = (if is_abs then abs_s (diff_s x) else diff_s x)"

definition change_quantiles_mean_spec ::
  "series \<Rightarrow> real \<Rightarrow> real \<Rightarrow> bool \<Rightarrow> error + real option" where
  "change_quantiles_mean_spec x ql qh is_abs =
     bind (quantile (change_series x is_abs) ql) (\<lambda>lo.
     bind (quantile (change_series x is_abs) qh) (\<lambda>hi.
       Inr (mean_s (abs_s (qualifying_changes (change_series x is_abs) lo hi)))))"


section \<open>Feature table and dimension reduction\<close>

text \<open>
  The class \<^verbatim>\<open>features_dim_reduction\<close> of
  \<^verbatim>\<open>functime/feature_reduction/time_series_processor.py\<close> owns a feature calculator and
  a dimension reducer. Their classes (\<^verbatim>\<open>FeatureCalculator\<close>, \<^verbatim>\<open>DimensionReducer\<close>) are
  not part of the source at hand. What they compute is a parameter: for a panel, the
  identifiers of its entities (one row per entity) and the columns of the registered
  features; the fitted model of a table; and the projection of a table by a fitted
  model. Each may fail.
\<close>

record ('st, 'e, 'k) collaborators =
  calculate :: "frame \<Rightarrow> error + (series \<times> frame)"
  pca :: "frame \<Rightarrow> int \<Rightarrow> 'k \<Rightarrow> error + 'st"
  transform :: "'st \<Rightarrow> frame \<Rightarrow> error + 'e"

text \<open>
  The object: the name of the reduction algorithm, and the two attributes the methods
  read back, \<^verbatim>\<open>feature_calculator.X_features\<close> and
  \<^verbatim>\<open>dimension_reducer.state_model\<close>, absent until they are set.
\<close>

record 'st features_dim_reduction =
  model :: string
  X_features :: "frame option"
  state_model :: "'st option"

text \<open>
  Modelled from the spec: \<^verbatim>\<open>FeatureCalculator.calculate_features\<close> is missing. The
  specification has the first column of the panel as the entity identifier, and the
  feature matrix as \<^verbatim>\<open>a table with one entity-identifier column followed by one column per registered feature\<close>,
  one row per entity, the same for the same panel and registry. So the feature matrix
  is the identifier column, under the name it has in the panel, followed by the feature
  columns. The calculator keeps it as \<^verbatim>\<open>X_features\<close>, where \<^verbatim>\<open>X_features()\<close> and
  \<^verbatim>\<open>X_reduced()\<close> read it. A panel without a column has no identifier; the methods
  of the class do not get there, since \<^verbatim>\<open>X.columns[0]\<close> raises first.
\<close>

definition calculate_features ::
  "('st, 'e, 'k) collaborators \<Rightarrow> 'st features_dim_reduction \<Rightarrow> frame
     \<Rightarrow> error + (frame \<times> 'st features_dim_reduction)" where
  "calculate_features env s X =
     (case X of
        [] \<Rightarrow> Inl IndexError
      | c # _ \<Rightarrow>
          (case calculate env X of
             Inl e \<Rightarrow> Inl e
           | Inr (ids, feats) \<Rightarrow>
               (let F = (fst c, ids) # feats
                in Inr (F, s\<lparr>X_features := Some F\<rparr>))))"

text \<open>
  Modelled from the spec: \<^verbatim>\<open>DimensionReducer.fit_pca\<close> is missing. It fits the
  projection and the reducer keeps the fitted model as \<^verbatim>\<open>state_model\<close>, which
  \<^verbatim>\<open>fit\<close>, \<^verbatim>\<open>fit_transform\<close> and \<^verbatim>\<open>X_reduced\<close> read. In the specification
  the state carries what is needed \<^verbatim>\<open>to be reused across multiple transform calls without refitting\<close>:
  its \<^verbatim>\<open>transform\<close> is a function of the fitted model and the table.
\<close>

definition fit_pca ::
  "('st, 'e, 'k) collaborators \<Rightarrow> 'st features_dim_reduction \<Rightarrow> frame \<Rightarrow> int \<Rightarrow> 'k
     \<Rightarrow> error + 'st features_dim_reduction" where
  "fit_pca env s X_feat target_dim kwargs =
     (case pca env X_feat target_dim kwargs of
        Inl e \<Rightarrow> Inl e
      | Inr st \<Rightarrow> Inr (s\<lparr>state_model := Some st\<rparr>))"

text \<open>\<^verbatim>\<open>select(pl.exclude(id))\<close>: every column but the one of that name.\<close>

definition select_exclude :: "string \<Rightarrow> frame \<Rightarrow> frame" where
  "select_exclude name df = filter (\<lambda>c. fst c \<noteq> name) df"

text \<open>
  \<^verbatim>\<open>
  def X_reduced(self):
      id = self.feature_calculator.X_features.columns[0]
      return self.dimension_reducer.state_model.transform(
          self.feature_calculator.X_features.select(pl.exclude(id)))
  \<close>
\<close>

definition X_reduced ::
  "('st, 'e, 'k) collaborators \<Rightarrow> 'st features_dim_reduction \<Rightarrow> error + 'e" where
  "X_reduced env s =
     (case X_features s of
        None \<Rightarrow> Inl AttributeError
      | Some F \<Rightarrow>
          (case getitem (columns F) 0 of
             Inl e \<Rightarrow> Inl e
           | Inr id_col \<Rightarrow>
               (case state_model s of
                  None \<Rightarrow> Inl AttributeError
                | Some st \<Rightarrow> transform env st (select_exclude id_col F))))"

text \<open>
  \<^verbatim>\<open>
  def fit(self, X, dim=2, **kwargs):
      id = X.columns[0]
      X_features = self.calculate_features(X).select(pl.exclude(id))
      if self.model == "PCA":
          self.dimension_reducer.fit_pca(X_features, dim, **kwargs)
          return self.dimension_reducer.state_model
      elif self.model == "TSNE":
          pass
      else:
          logger.info(...)
          sys.exit(1)
  \<close>
  The result is the returned value (\<^verbatim>\<open>None\<close> when the method falls off its end) and
  the object after the call.
\<close>

definition fit ::
  "('st, 'e, 'k) collaborators \<Rightarrow> 'st features_dim_reduction \<Rightarrow> frame \<Rightarrow> int \<Rightarrow> 'k
     \<Rightarrow> error + ('st option \<times> 'st features_dim_reduction)" where
  "fit env s X target_dim kwargs =
     (case getitem (columns X) 0 of
        Inl e \<Rightarrow> Inl e
      | Inr id_col \<Rightarrow>
          (case calculate_features env s X of
             Inl e \<Rightarrow> Inl e
           | Inr (F, s1) \<Rightarrow>
               (let X_feat = select_exclude id_col F
                in if model s1 = ''PCA'' then
                     (case fit_pca env s1 X_feat target_dim kwargs of
                        Inl e \<Rightarrow> Inl e
                      | Inr s2 \<Rightarrow> Inr (state_model s2, s2))
                   else if model s1 = ''TSNE'' then Inr (None, s1)
                   else Inl SystemExit)))"

text \<open>
  \<^verbatim>\<open>
  def fit_transform(self, X, dim=2, **kwargs):
      id = X.columns[0]
      X_features = self.calculate_features(X).select(pl.exclude(id))
      if self.model == "PCA":
          self.dimension_reducer.fit_pca(X_features, dim, **kwargs)
          return self.dimension_reducer.state_model.transform(X_features)
      elif self.model == "TSNE":
          pass
      else:
          logger.info(...)
          sys.exit(1)
  \<close>
\<close>

definition fit_transform ::
  "('st, 'e, 'k) collaborators \<Rightarrow> 'st features_dim_reduction \<Rightarrow> frame \<Rightarrow> int \<Rightarrow> 'k
     \<Rightarrow> error + ('e option \<times> 'st features_dim_reduction)" where
  "fit_transform env s X target_dim kwargs =
     (case getitem (columns X) 0 of
        Inl e \<Rightarrow> Inl e
      | Inr id_col \<Rightarrow>
          (case calculate_features env s X of
             Inl e \<Rightarrow> Inl e
           | Inr (F, s1) \<Rightarrow>
               (let X_feat = select_exclude id_col F
                in if model s1 = ''PCA'' then
                     (case fit_pca env s1 X_feat target_dim kwargs of
                        Inl e \<Rightarrow> Inl e
                      | Inr s2 \<Rightarrow>
                          (case state_model s2 of
                             None \<Rightarrow> Inl AttributeError
                           | Some st \<Rightarrow>
                               (case transform env st X_feat of
                                  Inl e \<Rightarrow> Inl e
                                | Inr emb \<Rightarrow> Inr (Some emb, s2))))
                   else if model s1 = ''TSNE'' then Inr (None, s1)
                   else Inl SystemExit)))"

text \<open>The call of \<^verbatim>\<open>fit\<close> followed by \<^verbatim>\<open>X_reduced\<close> on the same object.\<close>

definition fit_then_X_reduced ::
  "('st, 'e, 'k) collaborators \<Rightarrow> 'st features_dim_reduction \<Rightarrow> frame \<Rightarrow> int \<Rightarrow> 'k
     \<Rightarrow> error + 'e" where
  "fit_then_X_reduced env s X target_dim kwargs =
     (case fit env s X target_dim kwargs of
        Inl e \<Rightarrow> Inl e
      | Inr (r, s') \<Rightarrow> X_reduced env s')"

text \<open>
  A small instance of the collaborators: two entities and two feature columns; the
  fitted model is the number of components, refused when it exceeds the number of
  columns or of rows; the projection keeps that many columns.
\<close>

definition demo_env :: "(int, frame, unit) collaborators" where
  "demo_env =
     \<lparr>calculate = (\<lambda>X. Inr ([Some 1, Some 2],
                             [(''mean'', [Some 3, Some 5]), (''energy'', [Some 4, Some 6])])),
      pca = (\<lambda>F target_dim k.
               if target_dim \<le> int (length F) \<and> target_dim \<le> int (fst (shape F))
               then Inr target_dim else Inl ValueError),
      transform = (\<lambda>st F. Inr (take (nat st) F))\<rparr>"

definition demo_panel :: frame where
  "demo_panel = [(''entity'', [Some 1, Some 1, Some 2]),
                 (''time'', [Some 1, Some 2, Some 1]),
                 (''price'', [Some 3, Some 3, Some 5])]"

section \<open>Properties\<close>

subsection \<open>Reoccurring values\<close>

text \<open>
  C1. The docstrings promise, for \<open>x = [2,2,2,2,1]\<close>, the values 8 and 2. The code
  multiplies the value column with itself, so \<^verbatim>\<open>sum_reocurring_points\<close> is
  \<open>2 * 2 = 4\<close>, and \<^verbatim>\<open>sum_reocurring_values\<close> calls \<^verbatim>\<open>item()\<close> on a frame of one
  row and two columns, which raises \<^verbatim>\<open>ValueError\<close>.
\<close>

theorem reocurring_scenario_code:
  "sum_reocurring_points [Some 2, Some 2, Some 2, Some 2, Some 1] = Inr (Some 4) \<and>
   sum_reocurring_values [Some 2, Some 2, Some 2, Some 2, Some 1] = Inl ValueError"
  by (simp add: sum_reocurring_points_def sum_reocurring_values_def value_counts_def
      counts_gt_1_def frame_filter_def filter_mask_def frame_sum_def item_def shape_def
      get_column_def columns_def dot_def sum_s_def drop_nulls_def mul_opt_def)

subsection \<open>Percentages below and above a threshold\<close>

lemma filter_s_Cons:
  "filter_s (a # c) (b # m) = (if b = Some True then a # filter_s c m else filter_s c m)"
  by (simp add: filter_s_def)

lemma count_le_ge:
  "None \<notin> set x \<Longrightarrow>
   length (filter_s x (cmp_s (\<le>) x (Some t))) + length (filter_s x (cmp_s (\<ge>) x (Some t)))
     = length x + count_list x (Some t)"
proof (induction x)
  case Nil
  then show ?case by (simp add: filter_s_def cmp_s_def)
next
  case (Cons a x)
  then obtain p where a: "a = Some p" by (cases a) auto
  from Cons have IH: "length (filter_s x (cmp_s (\<le>) x (Some t))) + length (filter_s x (cmp_s (\<ge>) x (Some t)))
     = length x + count_list x (Some t)" by simp
  have c: "cmp_s rel (Some p # x) (Some t) = Some (rel p t) # cmp_s rel x (Some t)" for rel
    by (simp add: cmp_s_def)
  show ?case using IH by (auto simp: c filter_s_Cons a)
qed

lemma count_list_0_iff: "count_list x v = 0 \<longleftrightarrow> v \<notin> set x"
  by (induction x) auto

lemma binade_unfold:
  "binade k r =
     (if k = 0 then 0
      else if r < 1 then binade (k - 1) (2 * r) - 1
      else if 2 \<le> r then binade (k - 1) (r / 2) + 1
      else 0)"
  by (cases k) simp_all

lemma pow2_powi: "pow2 e = 2 powi e"
  by (simp add: pow2_def power_int_def power_inverse [symmetric] inverse_eq_divide power_one_over)

lemma pow2_pos: "0 < pow2 e"
  by (simp add: pow2_powi)

lemma pow2_add1: "pow2 (e + 1) = 2 * pow2 e"
  by (simp add: pow2_powi power_int_add)

lemma pow2_sub1: "pow2 (e - 1) = pow2 e / 2"
  using pow2_add1[of "e - 1"] by simp

lemma pow2_sub52: "pow2 (e - 52) = pow2 e / 2 ^ 52"
proof -
  have "pow2 (e - 52) = 2 powi e * 2 powi (- 52)"
    using power_int_add[of "2::real" e "- 52"] by (simp add: pow2_powi)
  then show ?thesis by (simp add: pow2_powi power_int_minus field_simps)
qed

lemma pow2_mono: "a \<le> b \<Longrightarrow> pow2 a \<le> pow2 b"
  by (simp add: pow2_powi power_int_increasing)

lemma binade_le: "0 < r \<Longrightarrow> pow2 (- int k) \<le> r \<Longrightarrow> pow2 (binade k r) \<le> r"
proof (induction k arbitrary: r)
  case 0
  then show ?case by (simp add: pow2_def)
next
  case (Suc k)
  show ?case
  proof (cases "r < 1")
    case True
    have "pow2 (- int k) = 2 * pow2 (- int (Suc k))"
      using pow2_add1[of "- int (Suc k)"] by simp
    then have "pow2 (- int k) \<le> 2 * r" using Suc.prems by simp
    then have "pow2 (binade k (2 * r)) \<le> 2 * r" using Suc.IH[of "2 * r"] Suc.prems by simp
    then show ?thesis using True by (simp add: pow2_sub1)
  next
    case False
    show ?thesis
    proof (cases "2 \<le> r")
      case True
      have "pow2 (- int k) \<le> pow2 0" by (rule pow2_mono) simp
      then have "pow2 (- int k) \<le> r / 2" using True by (simp add: pow2_def)
      then have "pow2 (binade k (r / 2)) \<le> r / 2" using Suc.IH[of "r / 2"] True by simp
      then show ?thesis using True False by (simp add: pow2_add1)
    next
      case False2: False
      then show ?thesis using False by (simp add: pow2_def)
    qed
  qed
qed

lemma round_half_even_bounds:
  "q - 1 / 2 \<le> real_of_int (round_half_even q)" "real_of_int (round_half_even q) \<le> q + 1 / 2"
proof -
  have f1: "real_of_int \<lfloor>q\<rfloor> \<le> q" by simp
  have f2: "q < real_of_int \<lfloor>q\<rfloor> + 1" by linarith
  show "q - 1 / 2 \<le> real_of_int (round_half_even q)"
    by (auto simp: round_half_even_def Let_def) (insert f1 f2, linarith)+
  show "real_of_int (round_half_even q) \<le> q + 1 / 2"
    by (auto simp: round_half_even_def Let_def) (insert f1 f2, linarith)+
qed

lemma f64_bounds:
  assumes "pow2 (- 1022) \<le> r" and "r \<le> 2 ^ 1023"
  shows "\<exists>v. f64 r = Num v \<and> r * (1 - 1 / 2 ^ 53) \<le> v \<and> v \<le> r * (1 + 1 / 2 ^ 53)"
proof -
  have rpos: "0 < r" using assms(1) pow2_pos[of "- 1022"] by linarith
  define e where "e = max (binade 1100 r) (- 1022)"
  define u where "u = pow2 (e - 52)"
  define v where "v = real_of_int (round_half_even (r / u)) * u"
  have "pow2 (- int 1100) \<le> pow2 (- 1022)" by (rule pow2_mono) simp
  then have "pow2 (binade 1100 r) \<le> r" using binade_le[of r 1100] rpos assms(1) by simp
  then have e: "pow2 e \<le> r" using assms(1) rpos by (simp add: e_def max_def)
  have upos: "0 < u" by (simp add: u_def pow2_pos)
  have u: "u \<le> r / 2 ^ 52" using e by (simp add: u_def pow2_sub52 field_simps)
  have "r / u - 1 / 2 \<le> real_of_int (round_half_even (r / u))"
       "real_of_int (round_half_even (r / u)) \<le> r / u + 1 / 2"
    by (rule round_half_even_bounds)+
  then have "(r / u - 1 / 2) * u \<le> v" "v \<le> (r / u + 1 / 2) * u"
    using upos by (simp_all add: v_def)
  moreover have "(r / u - 1 / 2) * u = r - u / 2" "(r / u + 1 / 2) * u = r + u / 2"
    using upos by (simp_all add: field_simps)
  ultimately have v1: "r - u / 2 \<le> v" and v2: "v \<le> r + u / 2"
    by simp_all
  have lo: "r * (1 - 1 / 2 ^ 53) \<le> v" using v1 u by (simp add: field_simps)
  have hi: "v \<le> r * (1 + 1 / 2 ^ 53)" using v2 u by (simp add: field_simps)
  have vpos: "0 \<le> v" using lo rpos
    by (smt (verit) mult_nonneg_nonneg divide_le_eq_1_pos zero_less_power one_le_power)
  have "r * (1 + 1 / 2 ^ 53) \<le> 2 ^ 1023 * (1 + 1 / 2 ^ 53)"
    using assms(2) by (intro mult_right_mono) simp_all
  also have "\<dots> < (2::real) ^ 1024" by simp
  finally have "v < 2 ^ 1024" using hi by linarith
  then have "f64 r = Num v"
    using rpos vpos
    by (simp add: f64_def Let_def e_def [symmetric] u_def [symmetric] v_def [symmetric])
  then show ?thesis using lo hi by blast
qed

lemma f64_zero: "f64 0 = Num 0"
  by (simp add: f64_def)

lemma pow2_small: "pow2 (- 1022) \<le> 1 / 2 ^ 40"
proof -
  have "pow2 (- 1022) \<le> pow2 (- 40)" by (rule pow2_mono) simp
  then show ?thesis by (simp add: pow2_def)
qed

lemma percentage_bounds:
  assumes "0 < n" and "n < 2 ^ 32" and "k \<le> n"
  shows "\<exists>a. mul_f64 (truediv_f64 (real k) (real n)) 100 = Num a \<and>
             100 * (real k / real n) * (1 - 1 / 2 ^ 53) ^ 2 \<le> a \<and>
             a \<le> 100 * (real k / real n) * (1 + 1 / 2 ^ 53) ^ 2"
proof (cases "k = 0")
  case True
  then show ?thesis using assms(1) by (simp add: truediv_f64_def mul_f64_def f64_zero)
next
  case False
  let ?r = "real k / real n"
  let ?d = "1 - 1 / (2::real) ^ 53"
  let ?u = "1 + 1 / (2::real) ^ 53"
  have n: "0 < real n" "real n < 2 ^ 32" using assms(1,2) by simp_all
  have k: "1 \<le> real k" "real k \<le> real n" using False assms(3) by simp_all
  have r_hi: "?r \<le> 1" using k n by simp
  have "1 / 2 ^ 32 \<le> 1 / real n" using n by (simp add: field_simps)
  also have "\<dots> \<le> ?r" using k n by (simp add: field_simps)
  finally have r_lo: "1 / 2 ^ 32 \<le> ?r" .
  have s40: "1 / 2 ^ 40 \<le> 1 / (2::real) ^ 33" by simp
  have s33: "1 / 2 ^ 33 \<le> 1 / (2::real) ^ 32" by simp
  have "pow2 (- 1022) \<le> ?r" using pow2_small s40 s33 r_lo by linarith
  moreover have "?r \<le> 2 ^ 1023" using r_hi one_le_power[of "2::real" 1023] by linarith
  ultimately obtain q where q: "f64 ?r = Num q" "?r * ?d \<le> q" "q \<le> ?r * ?u"
    using f64_bounds[of ?r] by blast
  have d: "1 / 2 \<le> ?d" by simp
  have "1 / 2 ^ 32 * (1 / 2) \<le> ?r * ?d"
    using r_lo d by (intro mult_mono) simp_all
  then have q_lo: "1 / 2 ^ 33 \<le> q" using q(2) by simp
  have "?r * ?u \<le> 1 * ?u"
    using r_hi by (intro mult_right_mono) simp_all
  then have q_hi: "q \<le> 2" using q(3) by simp
  have "0 < 1 / (2::real) ^ 33" by simp
  then have "q \<le> q * 100" using q_lo by linarith
  then have "pow2 (- 1022) \<le> q * 100" using pow2_small s40 q_lo by linarith
  moreover have "q * 100 \<le> 2 ^ 1023"
  proof -
    have "q * 100 \<le> 2 ^ 8" using q_hi by simp
    also have "(2::real) ^ 8 \<le> 2 ^ 1023" by (rule power_increasing) simp_all
    finally show ?thesis .
  qed
  ultimately obtain a where a: "f64 (q * 100) = Num a" "q * 100 * ?d \<le> a" "a \<le> q * 100 * ?u"
    using f64_bounds[of "q * 100"] by blast
  have "?r * ?d * 100 * ?d \<le> q * 100 * ?d"
    using q(2) by (intro mult_right_mono) simp_all
  then have lo: "100 * ?r * ?d ^ 2 \<le> a" using a(2) by (simp add: power2_eq_square algebra_simps)
  have "q * 100 * ?u \<le> ?r * ?u * 100 * ?u"
    using q(3) by (intro mult_right_mono) simp_all
  then have hi: "a \<le> 100 * ?r * ?u ^ 2" using a(3) by (simp add: power2_eq_square algebra_simps)
  have "mul_f64 (truediv_f64 (real k) (real n)) 100 = Num a"
    using n q(1) a(1) by (simp add: truediv_f64_def mul_f64_def)
  then show ?thesis using lo hi by blast
qed

lemma length_filter_s: "length (filter_s c m) \<le> length c"
proof -
  have "length (filter (\<lambda>p. snd p = Some True) (zip c m)) \<le> length (zip c m)"
    by (rule length_filter_le)
  then show ?thesis by (simp add: filter_s_def)
qed

lemma rounding_margin: "100 * (1 - 1 / 2 ^ 52) \<le> 100 * (1 - 1 / (2::real) ^ 53) ^ 2"
  by (simp add: power2_eq_square algebra_simps)

lemma rounding_margin_above: "100 * (1 + 1 / (2::real) ^ 53) ^ 2 \<le> 100 * (1 + 1 / 2 ^ 51)"
  by (simp add: power2_eq_square algebra_simps)

lemma tie_margin:
  "100 * (1 + 1 / 2 ^ 51) < 100 * (1 + 1 / 2 ^ 32) * (1 - 1 / (2::real) ^ 53) ^ 2"
  by (simp add: power2_eq_square algebra_simps)

lemma f64_third: "f64 (1 / 3) = Num (6004799503160661 / 18014398509481984)"
  by (simp add: f64_def binade_unfold pow2_def round_half_even_def Let_def)

lemma f64_two_thirds: "f64 (2 / 3) = Num (6004799503160661 / 9007199254740992)"
  by (simp add: f64_def binade_unfold pow2_def round_half_even_def Let_def)

lemma f64_third_pct:
  "f64 (150119987579016525 / 4503599627370496) = Num (2345624805922133 / 70368744177664)"
  by (simp add: f64_def binade_unfold pow2_def round_half_even_def Let_def)

lemma f64_two_thirds_pct:
  "f64 (150119987579016525 / 2251799813685248) = Num (2345624805922133 / 35184372088832)"
  by (simp add: f64_def binade_unfold pow2_def round_half_even_def Let_def)

lemma f64_one: "f64 1 = Num 1"
  by (simp add: f64_def binade_unfold pow2_def round_half_even_def Let_def)

lemma f64_hundred: "f64 100 = Num 100"
  by (simp add: f64_def binade_unfold pow2_def round_half_even_def Let_def)

text \<open>
  C10, as amended. For a non-empty series without missing values and with fewer than
  \<open>2 ^ 32\<close> entries (the range of the counts), both percentages are numbers and their
  sum is at least \<open>100 * (1 - 2 ^ -52)\<close>. When no value equals the threshold the sum
  is 100 up to the rounding of the two Float64 operations behind each percentage: it is
  at most \<open>100 * (1 + 2 ^ -51)\<close>. When a value equals the threshold the sum is greater
  than \<open>100 * (1 + 2 ^ -51)\<close>, hence greater than 100: both comparisons are inclusive,
  so such a value is counted twice.
\<close>

theorem count_below_above_rounded:
  assumes "x \<noteq> []" and "None \<notin> set x" and "length x < 2 ^ 32"
  shows "\<exists>a b. count_below x t = Num a \<and> count_above x t = Num b \<and>
               100 * (1 - 1 / 2 ^ 52) \<le> a + b \<and>
               (Some t \<notin> set x \<longrightarrow> a + b \<le> 100 * (1 + 1 / 2 ^ 51)) \<and>
               (Some t \<in> set x \<longrightarrow> 100 * (1 + 1 / 2 ^ 51) < a + b)"
proof -
  define L where "L = real (length (filter_s x (cmp_s (\<le>) x (Some t))))"
  define G where "G = real (length (filter_s x (cmp_s (\<ge>) x (Some t))))"
  define n where "n = real (length x)"
  define E where "E = real (count_list x (Some t))"
  define d2 where "d2 = (1 - 1 / (2::real) ^ 53) ^ 2"
  define u2 where "u2 = (1 + 1 / (2::real) ^ 53) ^ 2"
  have n0: "0 < length x" using assms(1) by simp
  have n: "0 < n" "n \<le> 2 ^ 32" using assms(1,3) by (simp_all add: n_def)
  obtain a where a: "count_below x t = Num a" "100 * (L / n) * d2 \<le> a"
      "a \<le> 100 * (L / n) * u2"
    using percentage_bounds[OF n0 assms(3) length_filter_s, of "cmp_s (\<le>) x (Some t)"]
    by (auto simp: count_below_def count_s_def L_def n_def d2_def u2_def)
  obtain b where b: "count_above x t = Num b" "100 * (G / n) * d2 \<le> b"
      "b \<le> 100 * (G / n) * u2"
    using percentage_bounds[OF n0 assms(3) length_filter_s, of "cmp_s (\<ge>) x (Some t)"]
    by (auto simp: count_above_def count_s_def G_def n_def d2_def u2_def)
  have "L + G = n + E"
    using count_le_ge[OF assms(2), of t] unfolding L_def G_def n_def E_def
    by (metis of_nat_add)
  then have frac: "L / n + G / n = 1 + E / n"
    using n(1) by (simp add: field_simps)
  have d2: "0 \<le> d2" by (simp add: d2_def)
  have E0: "0 \<le> E" by (simp add: E_def)
  have "100 * (L / n) * d2 + 100 * (G / n) * d2 = 100 * (L / n + G / n) * d2"
    by (simp only: distrib_left distrib_right)
  then have sum: "100 * (1 + E / n) * d2 \<le> a + b"
    using a(2) b(2) frac by simp
  have "100 * (L / n) * u2 + 100 * (G / n) * u2 = 100 * (L / n + G / n) * u2"
    by (simp only: distrib_left distrib_right)
  then have sum_hi: "a + b \<le> 100 * (1 + E / n) * u2"
    using a(3) b(3) frac by simp
  have "0 \<le> E / n" using E0 n(1) by simp
  then have "100 * 1 * d2 \<le> 100 * (1 + E / n) * d2"
    using d2 by (intro mult_right_mono mult_left_mono) simp_all
  then have lower: "100 * (1 - 1 / 2 ^ 52) \<le> a + b"
    using sum rounding_margin unfolding d2_def by linarith
  have no_tie: "a + b \<le> 100 * (1 + 1 / 2 ^ 51)" if "Some t \<notin> set x"
  proof -
    have "count_list x (Some t) = 0" using that by (simp add: count_list_0_iff)
    then have "E = 0" by (simp add: E_def)
    then have "a + b \<le> 100 * u2" using sum_hi by simp
    then show ?thesis using rounding_margin_above unfolding u2_def by linarith
  qed
  have tie: "100 * (1 + 1 / 2 ^ 51) < a + b" if "Some t \<in> set x"
  proof -
    have "count_list x (Some t) \<noteq> 0" using that by (simp add: count_list_0_iff)
    then have E1: "1 \<le> E" by (simp add: E_def Suc_le_eq)
    have "1 / 2 ^ 32 \<le> 1 / n" using n by (intro divide_left_mono) simp_all
    also have "1 / n \<le> E / n" using E1 n(1) by (intro divide_right_mono) simp_all
    finally have "1 / 2 ^ 32 \<le> E / n" .
    then have "100 * (1 + 1 / 2 ^ 32) * d2 \<le> 100 * (1 + E / n) * d2"
      using d2 by (intro mult_right_mono mult_left_mono) simp_all
    then show ?thesis using sum tie_margin unfolding d2_def by linarith
  qed
  show ?thesis using a(1) b(1) lower no_tie tie by blast
qed

theorem count_below_above_rounded_witness:
  "[Some 1, Some 2, Some (2::real)] \<noteq> [] \<and> None \<notin> set [Some 1, Some 2, Some (2::real)] \<and>
   length [Some 1, Some 2, Some (2::real)] < 2 ^ 32 \<and>
   Some 2 \<in> set [Some 1, Some 2, Some (2::real)] \<and>
   count_below [Some 1, Some 2, Some 2] 2 = Num 100 \<and>
   count_above [Some 1, Some 2, Some 2] 2 = Num (2345624805922133 / 35184372088832) \<and>
   100 * (1 + 1 / 2 ^ 51) < (100::real) + 2345624805922133 / 35184372088832 \<and>
   [Some 1, Some 2, Some (4::real)] \<noteq> [] \<and> None \<notin> set [Some 1, Some 2, Some (4::real)] \<and>
   length [Some 1, Some 2, Some (4::real)] < 2 ^ 32 \<and>
   Some 3 \<notin> set [Some 1, Some 2, Some (4::real)] \<and>
   count_below [Some 1, Some 2, Some 4] 3 = Num (2345624805922133 / 35184372088832) \<and>
   count_above [Some 1, Some 2, Some 4] 3 = Num (2345624805922133 / 70368744177664) \<and>
   2345624805922133 / 35184372088832 + 2345624805922133 / 70368744177664
     \<le> (100::real) * (1 + 1 / 2 ^ 51)"
proof -
  have h1: "[Some 1, Some 2, Some (2::real)] \<noteq> []" by simp
  have h2: "None \<notin> set [Some 1, Some 2, Some (2::real)]" by simp
  have h3: "length [Some 1, Some 2, Some (2::real)] < 2 ^ 32" by simp
  have b: "count_below [Some 1, Some 2, Some 2] 2 = Num 100"
    by (simp add: count_below_def count_s_def filter_s_def cmp_s_def truediv_f64_def
        mul_f64_def f64_one f64_hundred)
  have a: "count_above [Some 1, Some 2, Some 2] 2 = Num (2345624805922133 / 35184372088832)"
    by (simp add: count_above_def count_s_def filter_s_def cmp_s_def truediv_f64_def
        mul_f64_def f64_two_thirds f64_two_thirds_pct)
  have g1: "[Some 1, Some 2, Some (4::real)] \<noteq> []" by simp
  have g2: "None \<notin> set [Some 1, Some 2, Some (4::real)]" by simp
  have g3: "length [Some 1, Some 2, Some (4::real)] < 2 ^ 32" by simp
  have b': "count_below [Some 1, Some 2, Some 4] 3 = Num (2345624805922133 / 35184372088832)"
    by (simp add: count_below_def count_s_def filter_s_def cmp_s_def truediv_f64_def
        mul_f64_def f64_two_thirds f64_two_thirds_pct)
  have a': "count_above [Some 1, Some 2, Some 4] 3 = Num (2345624805922133 / 70368744177664)"
    by (simp add: count_above_def count_s_def filter_s_def cmp_s_def truediv_f64_def
        mul_f64_def f64_third f64_third_pct)
  show ?thesis
    using h1 h2 h3 a b g1 g2 g3 a' b'
      count_below_above_rounded[OF h1 h2 h3, of 2]
      count_below_above_rounded[OF g1 g2 g3, of 3]
    by simp
qed

text \<open>
  C10, as stated, fails: on \<open>x = [1, 2, 3]\<close> with the threshold \<open>3/2\<close> no value equals
  the threshold, the percentages are the doubles nearest to \<open>100/3\<close> and \<open>200/3\<close> as
  Float64 computes them, and their sum is less than 100.
\<close>

theorem count_below_above_exact_counterexample:
  "count_below [Some 1, Some 2, Some 3] (3 / 2) = Num (2345624805922133 / 70368744177664) \<and>
   count_above [Some 1, Some 2, Some 3] (3 / 2) = Num (2345624805922133 / 35184372088832) \<and>
   2345624805922133 / 70368744177664 + 2345624805922133 / 35184372088832 < (100::real) \<and>
   Some (3 / 2) \<notin> set [Some 1, Some 2, Some (3::real)]"
proof -
  have b: "count_below [Some 1, Some 2, Some 3] (3 / 2)
             = Num (2345624805922133 / 70368744177664)"
    by (simp add: count_below_def count_s_def filter_s_def cmp_s_def truediv_f64_def
        mul_f64_def f64_third f64_third_pct)
  have a: "count_above [Some 1, Some 2, Some 3] (3 / 2)
             = Num (2345624805922133 / 35184372088832)"
    by (simp add: count_above_def count_s_def filter_s_def cmp_s_def truediv_f64_def
        mul_f64_def f64_two_thirds f64_two_thirds_pct)
  show ?thesis using a b by simp
qed


subsection \<open>Autocorrelation\<close>

text \<open>
  C6. At lag 0 the autocorrelation of every series is exactly 1.0, and at a negative lag
  it is the missing value.
\<close>

theorem autocorr_lag:
  "autocorr x 0 = Inr (Num 1.0) \<and> (lag < 0 \<longrightarrow> autocorr x lag = Inr Null)"
  by (simp add: autocorr_def)

theorem autocorr_lag_witness:
  "autocorr [Some 3, None, Some 5] 0 = Inr (Num 1.0) \<and>
   (- 2 < (0::int) \<and> autocorr [Some 3, None, Some 5] (- 2) = Inr Null)"
  using autocorr_lag[of "[Some 3, None, Some 5]" "- 2"] by simp

subsection \<open>Constant series\<close>

lemma const_sum_list:
  "\<forall>v\<in>set vs. v = (c::real) \<Longrightarrow> sum_list vs = c * real (length vs)"
  by (induction vs) (auto simp: algebra_simps)

lemma const_mean:
  assumes "set (drop_nulls x) = {c}"
  shows "mean_s x = Some c"
proof -
  have ne: "drop_nulls x \<noteq> []" using assms by auto
  have "sum_list (drop_nulls x) = c * real (length (drop_nulls x))"
    using assms by (intro const_sum_list) auto
  then show ?thesis using ne by (simp add: mean_s_def Let_def)
qed

lemma const_var:
  assumes "set (drop_nulls x) = {c}"
  shows "var_s 0 x = Some 0"
proof -
  let ?v = "drop_nulls x"
  have ne: "?v \<noteq> []" using assms by auto
  have m: "sum_list ?v / real (length ?v) = c"
    using const_mean[OF assms] ne by (simp add: mean_s_def Let_def)
  have "\<forall>d\<in>set (map (\<lambda>a. (a - c) ^ 2) ?v). d = 0" using assms by auto
  then have "sum_list (map (\<lambda>a. (a - c) ^ 2) ?v) = 0 * real (length (map (\<lambda>a. (a - c) ^ 2) ?v))"
    by (rule const_sum_list)
  then show ?thesis using ne m by (simp add: var_s_def Let_def)
qed

lemma const_median:
  assumes "set (drop_nulls x) = {c}"
  shows "median_s x = Some c"
proof -
  let ?v = "sort (drop_nulls x)"
  have ne: "length ?v \<noteq> 0" using assms by auto
  have el: "i < length ?v \<Longrightarrow> ?v ! i = c" for i
    using assms nth_mem[of i ?v] by auto
  have a: "?v ! (length ?v div 2) = c" using ne by (intro el) simp
  have "length ?v div 2 - 1 < length ?v" using ne by arith
  then have b: "?v ! (length ?v div 2 - 1) = c" by (rule el)
  show ?thesis using ne a b by (simp add: median_s_def Let_def del: length_sort)
qed

lemma const_max_min:
  assumes "set (drop_nulls x) = {c}"
  shows "max_s x = Some c" and "min_s x = Some c"
  using assms by (auto simp: max_s_def min_s_def Let_def)

text \<open>
  C5, as amended. On a series whose values are all equal (and that has a value) the
  variance is not greater than the standard deviation, and \<^verbatim>\<open>symmetry_looking\<close> is
  false for every \<open>r\<close>: both sides of the strict comparison
  \<open>|mean - median| < r * (max - min)\<close> are 0.
\<close>

theorem constant_series_flags:
  assumes "set (drop_nulls x) = {c}"
  shows "var_greater_than_std x = Some False \<and>
         (\<forall>d rv. map_of d ''r'' = Some rv \<longrightarrow> symmetry_looking x (PyDict d) = Inr False)"
  using const_var[OF assms] const_mean[OF assms] const_median[OF assms] const_max_min[OF assms]
  by (simp add: var_greater_than_std_def symmetry_looking_def)

theorem constant_series_flags_witness:
  "set (drop_nulls [Some 7, None, Some 7]) = {7::real} \<and>
   var_greater_than_std [Some 7, None, Some 7] = Some False \<and>
   map_of [(''r'', 1 / 2 :: real)] ''r'' = Some (1 / 2) \<and>
   symmetry_looking [Some 7, None, Some 7] (PyDict [(''r'', 1 / 2)]) = Inr False"
proof -
  have h: "set (drop_nulls [Some 7, None, Some 7]) = {7::real}" by (simp add: drop_nulls_def)
  have m: "map_of [(''r'', 1 / 2 :: real)] ''r'' = Some (1 / 2)" by simp
  show ?thesis using h m constant_series_flags[OF h] by blast
qed

text \<open>
  C5, as stated, fails: \<^verbatim>\<open>symmetry_looking\<close> is false on the constant series
  \<open>[1, 1]\<close> with \<open>r = 1/2\<close>.
\<close>

theorem symmetry_looking_constant_counterexample:
  "symmetry_looking [Some 1, Some 1] (PyDict [(''r'', 1 / 2)]) = Inr False"
  by (simp add: symmetry_looking_def mean_s_def median_s_def max_s_def min_s_def drop_nulls_def)

subsection \<open>Central second derivative\<close>

text \<open>
  C4, as amended. On a series without missing values,
  \<^verbatim>\<open>mean_second_derivative_central\<close> returns
  \<open>(x[n-1] - x[n-2] - x[1] + x[0]) / (2 (n - 2))\<close> when \<open>n > 2\<close>, raises
  \<^verbatim>\<open>ZeroDivisionError\<close> when \<open>n = 2\<close> and \<^verbatim>\<open>IndexError\<close> when \<open>n < 2\<close>.
\<close>

theorem mean_second_derivative_central_cases:
  "mean_second_derivative_central (map Some v) =
     (if length v < 2 then Inl IndexError
      else if length v = 2 then Inl ZeroDivisionError
      else Inr ((v ! (length v - 1) - v ! (length v - 2) - v ! 1 + v ! 0)
                  / (2 * (real (length v) - 2))))"
  by (auto simp: mean_second_derivative_central_def bind_def getitem_def py_sub_def py_add_def
      py_truediv_def Let_def nat_diff_distrib)

theorem mean_second_derivative_central_cases_witness:
  "mean_second_derivative_central (map Some [1, 2, 4, 8]) = Inr (3 / 4)"
  using mean_second_derivative_central_cases[of "[1, 2, 4, 8]"] by simp

text \<open>
  C4, as stated, fails: on a series of length 2 the division is not guarded, the call
  raises \<^verbatim>\<open>ZeroDivisionError\<close>.
\<close>

theorem mean_second_derivative_central_short_counterexample:
  "mean_second_derivative_central [Some 1, Some 2] = Inl ZeroDivisionError"
  by (simp add: mean_second_derivative_central_def bind_def getitem_def py_sub_def py_add_def
      py_truediv_def)


subsection \<open>Run lengths and longest strikes\<close>

lemma count_list_filter_neq:
  "count_list ks k + length (filter (\<lambda>j. j \<noteq> k) ks) = length ks"
  by (induction ks) auto

lemma sum_group_by_count: "sum_list (group_by_count ks) = length ks"
proof (induction ks rule: group_by_count.induct)
  case 1
  show ?case by simp
next
  case (2 k ks)
  then show ?case using count_list_filter_neq[of ks k] by simp
qed

lemma Max_le_sum_list:
  fixes ls :: "nat list"
  assumes "ls \<noteq> []"
  shows "Max (set ls) \<le> sum_list ls"
proof -
  have "Max (set ls) \<in> set ls" using assms by (intro Max_in) auto
  then show ?thesis by (simp add: member_le_sum_list)
qed

lemma length_filter_s_le: "length (filter_s c m) \<le> trues m"
proof (induction c arbitrary: m)
  case Nil
  show ?case by (simp add: filter_s_def)
next
  case (Cons a c)
  show ?case
  proof (cases m)
    case Nil
    then show ?thesis by (simp add: filter_s_def)
  next
    case (Cons b m')
    then show ?thesis using Cons.IH[of m'] by (simp add: filter_s_Cons trues_def)
  qed
qed

lemma trues_eq_1: "trues (eq_1 m) = trues m"
  by (induction m) (auto simp: trues_def eq_1_def)

lemma length_runs_le: "sum_list (get_length_sequences_where m) \<le> trues m"
  using length_filter_s_le[of _ "eq_1 m"]
  by (simp add: get_length_sequences_where_def sum_group_by_count trues_eq_1 Let_def)

lemma Max_runs_le:
  "(let lengths = get_length_sequences_where m
    in if length lengths > 0 then Max (set lengths) else 0) \<le> trues m"
proof (cases "get_length_sequences_where m = []")
  case True
  then show ?thesis by simp
next
  case False
  have "Max (set (get_length_sequences_where m)) \<le> trues m"
    using Max_le_sum_list[OF False] length_runs_le[of m] by (rule order_trans)
  then show ?thesis using False by (simp add: Let_def)
qed

lemma no_true_no_runs:
  assumes "Some True \<notin> set m"
  shows "get_length_sequences_where m = []"
proof -
  have "trues m = 0" using assms by (induction m) (auto simp: trues_def)
  then have "sum_list (get_length_sequences_where m) = 0"
    using length_runs_le[of m] by simp
  then have z: "\<forall>k\<in>set (get_length_sequences_where m). k = 0" by simp
  have "0 \<notin> set (group_by_count ks)" for ks :: "nat list"
    by (induction ks rule: group_by_count.induct) auto
  then have "0 \<notin> set (get_length_sequences_where m)"
    by (simp add: get_length_sequences_where_def)
  with z show ?thesis by (cases "get_length_sequences_where m") auto
qed

lemma trues_lt_gt: "trues (cmp_s (<) x t) + trues (cmp_s (>) x t) \<le> length x"
proof (induction x)
  case Nil
  show ?case by (simp add: trues_def cmp_s_def)
next
  case (Cons a x)
  have c: "cmp_s rel (a # x) t =
      (case (a, t) of (Some p, Some q) \<Rightarrow> Some (rel p q) | _ \<Rightarrow> None) # cmp_s rel x t" for rel
    by (simp add: cmp_s_def)
  show ?case using Cons.IH unfolding c
    by (cases a; cases t) (auto simp: trues_def)
qed

lemma lt_gt_disjoint:
  assumes "i < length x"
  shows "\<not> (cmp_s (<) x t ! i = Some True \<and> cmp_s (>) x t ! i = Some True)"
  using assms by (cases "x ! i"; cases t) (auto simp: cmp_s_def)

text \<open>
  C8, as amended. For a series with at least one value, both descriptors return a
  number; the longest strike below the mean and the longest strike above the mean add up
  to at most the length of the series; no row is both below and above the mean; and
  each descriptor is 0 when no row qualifies.
\<close>

theorem longest_strikes:
  assumes "drop_nulls x \<noteq> []"
  shows "\<exists>a b. longest_strike_below_mean x = Inr a \<and> longest_strike_above_mean x = Inr b \<and>
               a + b \<le> length x \<and>
               (\<forall>i<length x. \<not> (cmp_s (<) x (mean_s x) ! i = Some True \<and>
                                    cmp_s (>) x (mean_s x) ! i = Some True)) \<and>
               (Some True \<notin> set (cmp_s (<) x (mean_s x)) \<longrightarrow> a = 0) \<and>
               (Some True \<notin> set (cmp_s (>) x (mean_s x)) \<longrightarrow> b = 0)"
proof -
  obtain m where m: "mean_s x = Some m"
    using assms by (simp add: mean_s_def Let_def)
  define a where
    "a = (let lengths = get_length_sequences_where (cmp_s (<) x (Some m))
          in if length lengths > 0 then Max (set lengths) else 0)"
  define b where
    "b = (let lengths = get_length_sequences_where (cmp_s (>) x (Some m))
          in if length lengths > 0 then Max (set lengths) else 0)"
  have ra: "longest_strike_below_mean x = Inr a"
    by (simp add: longest_strike_below_mean_def m a_def)
  have rb: "longest_strike_above_mean x = Inr b"
    by (simp add: longest_strike_above_mean_def m b_def)
  have la: "a \<le> trues (cmp_s (<) x (Some m))"
    unfolding a_def by (rule Max_runs_le)
  have lb: "b \<le> trues (cmp_s (>) x (Some m))"
    unfolding b_def by (rule Max_runs_le)
  have s: "a + b \<le> length x"
    using la lb trues_lt_gt[of x "Some m"] by linarith
  have z1: "Some True \<notin> set (cmp_s (<) x (Some m)) \<longrightarrow> a = 0"
    by (simp add: a_def no_true_no_runs)
  have z2: "Some True \<notin> set (cmp_s (>) x (Some m)) \<longrightarrow> b = 0"
    by (simp add: b_def no_true_no_runs)
  show ?thesis unfolding m using ra rb s z1 z2 lt_gt_disjoint by blast
qed

theorem longest_strikes_witness:
  "drop_nulls [Some 1, Some 1, Some 5, Some 1, Some (10::real)] \<noteq> [] \<and>
   longest_strike_below_mean [Some 1, Some 1, Some 5, Some 1, Some 10] = Inr 2 \<and>
   longest_strike_above_mean [Some 1, Some 1, Some 5, Some 1, Some 10] = Inr 1 \<and>
   drop_nulls [Some 3, Some (3::real)] \<noteq> [] \<and>
   Some True \<notin> set (cmp_s (<) [Some 3, Some 3] (mean_s [Some 3, Some 3])) \<and>
   Some True \<notin> set (cmp_s (>) [Some 3, Some 3] (mean_s [Some 3, Some 3])) \<and>
   longest_strike_below_mean [Some 3, Some 3] = Inr 0 \<and>
   longest_strike_above_mean [Some 3, Some 3] = Inr 0"
proof -
  have d3: "drop_nulls [Some 3, Some (3::real)] \<noteq> []"
    by (simp add: drop_nulls_def)
  have d5: "drop_nulls [Some 1, Some 1, Some 5, Some 1, Some (10::real)] \<noteq> []"
    by (simp add: drop_nulls_def)
  have m: "mean_s [Some 3, Some 3] = Some 3"
    by (simp add: mean_s_def drop_nulls_def)
  have b: "Some True \<notin> set (cmp_s (<) [Some 3, Some 3] (mean_s [Some 3, Some 3]))"
    by (simp add: m cmp_s_def)
  have a: "Some True \<notin> set (cmp_s (>) [Some 3, Some 3] (mean_s [Some 3, Some 3]))"
    by (simp add: m cmp_s_def)
  have m5: "mean_s [Some 1, Some 1, Some 5, Some 1, Some 10] = Some (18 / 5)"
    by (simp add: mean_s_def drop_nulls_def)
  have lo: "longest_strike_below_mean [Some 1, Some 1, Some 5, Some 1, Some 10] = Inr 2"
    by (simp add: longest_strike_below_mean_def m5 cmp_s_def get_length_sequences_where_def
        filter_s_def eq_1_def ne_s_def shift_def fill_null_def cumsum_def)
  have hi: "longest_strike_above_mean [Some 1, Some 1, Some 5, Some 1, Some 10] = Inr 1"
    by (simp add: longest_strike_above_mean_def m5 cmp_s_def get_length_sequences_where_def
        filter_s_def eq_1_def ne_s_def shift_def fill_null_def cumsum_def)
  show ?thesis
    using a b d3 d5 lo hi longest_strikes[OF d3] longest_strikes[OF d5]
    by auto
qed

text \<open>
  C8, as stated, fails: the empty series and a series of missing values have no mean,
  and both descriptors raise \<^verbatim>\<open>TypeError\<close> instead of returning 0.
\<close>

theorem longest_strikes_no_value_counterexample:
  "longest_strike_below_mean [] = Inl TypeError \<and>
   longest_strike_above_mean [] = Inl TypeError \<and>
   longest_strike_below_mean [None, None] = Inl TypeError \<and>
   longest_strike_above_mean [None, None] = Inl TypeError"
  by (simp add: longest_strike_below_mean_def longest_strike_above_mean_def mean_s_def
      drop_nulls_def)

text \<open>
  C7. The docstring of \<^verbatim>\<open>_get_length_sequences_where\<close> promises the list \<open>[0]\<close> for a
  column without a true value. The filter leaves no row, so the code returns the empty
  series.
\<close>

theorem run_lengths_no_true_code:
  "get_length_sequences_where [Some False, Some False] = []"
  by (simp add: get_length_sequences_where_def filter_s_def eq_1_def ne_s_def shift_def
      fill_null_def cumsum_def)


subsection \<open>Linear trend\<close>

text \<open>
  C2. The docstring promises the ordinary least squares results. The code divides the
  covariance by the variance of \<open>x\<close>, not of the index, and adds the intercept to the
  residual where it has to be subtracted. On \<open>x = [2, 4, 6]\<close> it returns the slope
  \<open>1/2\<close> and the residual sum of squares \<open>225/2\<close>; the least squares slope is 2, and
  the squared residuals of the returned line add up to \<open>9/2\<close>.
\<close>

theorem linear_trend_not_ols:
  "linear_trend [Some 2, Some 4, Some 6]
     = \<lparr>slope = Num (1 / 2), intercept = Num 3, rss = Num (225 / 2)\<rparr> \<and>
   ols_slope_spec [Some 2, Some 4, Some 6] = Num 2 \<and>
   residual_sum_of_squares_spec [2, 4, 6] (1 / 2) 3 = 9 / 2"
proof -
  have r: "int_range (Suc 0) (Suc (Suc (Suc (Suc 0)))) = [Some 1, Some 2, Some 3]"
    by (simp add: int_range_def upt_rec)
  have c: "cov_s [Some 2, Some 4, Some 6] [Some 1, Some 2, Some 3] = Some 2"
    by (simp add: cov_s_def both_present_def)
  have c': "cov_s [Some 1, Some 2, Some 3] [Some 2, Some 4, Some 6] = Some 2"
    by (simp add: cov_s_def both_present_def)
  have v: "var_s (Suc 0) [Some 2, Some 4, Some 6] = Some 4"
    by (simp add: var_s_def drop_nulls_def power2_eq_square)
  have v': "var_s (Suc 0) [Some 1, Some 2, Some 3] = Some 1"
    by (simp add: var_s_def drop_nulls_def power2_eq_square)
  have m: "mean_s [Some 2, Some 4, Some 6] = Some 4" "mean_s [Some 1, Some 2, Some 3] = Some 2"
    by (simp_all add: mean_s_def drop_nulls_def)
  have 1: "linear_trend [Some 2, Some 4, Some 6]
     = \<lparr>slope = Num (1 / 2), intercept = Num 3, rss = Num (225 / 2)\<rparr>"
    by (simp add: linear_trend_def r c v m truediv_def of_opt_def pow_sc_def sum_sc_def
        power2_eq_square Let_def)
  have 2: "ols_slope_spec [Some 2, Some 4, Some 6] = Num 2"
    by (simp add: ols_slope_spec_def r c' v' truediv_def Let_def)
  have 3: "residual_sum_of_squares_spec [2, 4, 6] (1 / 2) 3 = 9 / 2"
    by (simp add: residual_sum_of_squares_spec_def upt_rec power2_eq_square)
  show ?thesis using 1 2 3 by simp
qed


subsection \<open>Changes inside a quantile corridor\<close>

lemma zip_as_map_upt:
  assumes "length d = length m"
  shows "zip d m = map (\<lambda>i. (d ! i, m ! i)) [0..<length d]"
  using assms by (intro nth_equalityI) auto

lemma filter_s_as_index:
  assumes "length d = length m"
  shows "filter_s d m = map ((!) d) (filter (\<lambda>i. m ! i = Some True) [0..<length d])"
proof -
  have "filter_s d m
      = map fst (filter (\<lambda>p. snd p = Some True) (map (\<lambda>i. (d ! i, m ! i)) [0..<length d]))"
    by (simp add: filter_s_def zip_as_map_upt[OF assms])
  also have "\<dots> = map ((!) d) (filter (\<lambda>i. m ! i = Some True) [0..<length d])"
    by (simp add: filter_map comp_def)
  finally show ?thesis .
qed

lemma and_k_True: "and_k a b = Some True \<longleftrightarrow> a = Some True \<and> b = Some True"
  by (auto simp: and_k_def)

lemma is_between_nth:
  "i < length d \<Longrightarrow> is_between d lo hi ! i = Some True \<longleftrightarrow> in_corridor lo hi (d ! i)"
  by (cases "d ! i"; cases lo; cases hi) (auto simp: is_between_def in_corridor_def)

lemma length_is_between: "length (is_between d lo hi) = length d"
  by (simp add: is_between_def)

lemma shift_and_fill_nth:
  assumes "i < length m"
  shows "shift_and_fill False (Suc 0) m ! i = (if i = 0 then Some False else m ! (i - 1))"
  using assms by (cases i) (auto simp: shift_and_fill_def)

lemma length_shift_and_fill: "length (shift_and_fill f (Suc 0) m) = length m"
  by (simp add: shift_and_fill_def)

lemma corridor_filter:
  "filter_s d (map (\<lambda>(a, b). and_k a b)
                 (zip (is_between d lo hi) (shift_and_fill False (Suc 0) (is_between d lo hi))))
   = qualifying_changes d lo hi"
proof -
  let ?B = "is_between d lo hi"
  let ?m = "map (\<lambda>(a, b). and_k a b) (zip ?B (shift_and_fill False (Suc 0) ?B))"
  let ?Q = "\<lambda>i. in_corridor lo hi (d ! i) \<and> in_corridor lo hi (d ! (i - 1))"
  have len: "length d = length ?m"
    by (simp add: length_is_between length_shift_and_fill)
  have nth: "?m ! i = Some True \<longleftrightarrow> 0 < i \<and> ?Q i" if "i < length d" for i
  proof -
    have "?m ! i = and_k (?B ! i) (shift_and_fill False (Suc 0) ?B ! i)"
      using that by (simp add: length_is_between length_shift_and_fill)
    moreover have "i - 1 < length d" using that by simp
    ultimately show ?thesis
      using that
      by (auto simp: and_k_True is_between_nth shift_and_fill_nth length_is_between)
  qed
  have "filter (\<lambda>i. ?m ! i = Some True) [0..<length d]
      = filter (\<lambda>i. 0 < i \<and> ?Q i) [0..<length d]"
    by (rule filter_cong) (auto simp: nth)
  also have "\<dots> = filter ?Q (filter (\<lambda>i. 0 < i) [0..<length d])"
    by (simp add: conj_commute)
  also have "filter (\<lambda>i. 0 < i) [0..<length d] = [1..<length d]"
  proof (cases "length d")
    case 0
    then show ?thesis by simp
  next
    case (Suc n)
    have "filter (\<lambda>i. 0 < i) [Suc 0..<Suc n] = [Suc 0..<Suc n]"
      by (rule filter_True) auto
    then show ?thesis by (simp add: Suc upt_conv_Cons)
  qed
  finally show ?thesis
    by (simp add: filter_s_as_index[OF len] qualifying_changes_def)
qed

lemma quantile_total:
  "0 \<le> q \<Longrightarrow> q \<le> 1 \<Longrightarrow> \<exists>v. quantile d q = Inr v"
  by (simp add: quantile_def Let_def)

text \<open>
  What \<^verbatim>\<open>change_quantiles\<close> returns. For quantiles in \<open>[0, 1]\<close> it is the sequence of
  the successive differences of \<open>x\<close>, absolute when \<open>is_abs\<close>, such that both the
  difference and its predecessor lie within the quantile corridor of that difference
  series, in their order; the sequence is empty when no pair qualifies.
\<close>

lemma change_quantiles_sequence:
  assumes "0 \<le> ql" "ql \<le> 1" "0 \<le> qh" "qh \<le> 1"
  shows "\<exists>lo hi. quantile (change_series x is_abs) ql = Inr lo \<and>
                 quantile (change_series x is_abs) qh = Inr hi \<and>
                 change_quantiles x ql qh is_abs
                   = Inr (qualifying_changes (change_series x is_abs) lo hi) \<and>
                 ((\<forall>i. 1 \<le> i \<and> i < length (change_series x is_abs) \<longrightarrow>
                        \<not> (in_corridor lo hi (change_series x is_abs ! i) \<and>
                           in_corridor lo hi (change_series x is_abs ! (i - 1))))
                  \<longrightarrow> change_quantiles x ql qh is_abs = Inr [])"
proof -
  let ?d = "change_series x is_abs"
  obtain lo where lo: "quantile ?d ql = Inr lo" using quantile_total[OF assms(1,2)] by blast
  obtain hi where hi: "quantile ?d qh = Inr hi" using quantile_total[OF assms(3,4)] by blast
  have eq: "change_quantiles x ql qh is_abs = Inr (qualifying_changes ?d lo hi)"
    using lo hi corridor_filter[of ?d lo hi]
    by (simp add: change_quantiles_def change_series_def bind_def Let_def)
  have empty: "qualifying_changes ?d lo hi = []"
    if "\<forall>i. 1 \<le> i \<and> i < length ?d \<longrightarrow>
          \<not> (in_corridor lo hi (?d ! i) \<and> in_corridor lo hi (?d ! (i - 1)))"
    using that by (auto simp: qualifying_changes_def filter_empty_conv)
  show ?thesis using lo hi eq empty by auto
qed

lemma change_series_1247:
  "change_series [Some 1, Some 2, Some 4, Some 7] True = [None, Some 1, Some 2, Some 3]"
  by (simp add: change_series_def abs_s_def diff_s_def shift_def)

lemma quantile_123:
  "quantile [None, Some 1, Some 2, Some 3] 0 = Inr (Some 1)"
  "quantile [None, Some 1, Some 2, Some 3] 1 = Inr (Some 3)"
  by (simp_all add: quantile_def drop_nulls_def)

lemma qualifying_123:
  "qualifying_changes [None, Some 1, Some 2, Some 3] (Some 1) (Some 3) = [Some 2, Some 3]"
  by (simp add: qualifying_changes_def in_corridor_def upt_rec)

text \<open>
  C3. The docstring of \<^verbatim>\<open>change_quantiles\<close> says that it
  \<^verbatim>\<open>calculates the average, absolute value of consecutive changes of the series x inside this corridor\<close>,
  which is what the claim says too. The body ends with the filter and returns the
  filtered differences themselves: on \<open>x = [1, 2, 4, 7]\<close> with \<open>ql = 0 < qh = 1\<close> and
  \<open>is_abs\<close> the code returns the two differences \<open>[2, 3]\<close>, where the docstring and
  the claim have the single average \<open>5/2\<close>.
\<close>

theorem change_quantiles_returns_series_code:
  "change_quantiles [Some 1, Some 2, Some 4, Some 7] 0 1 True = Inr [Some 2, Some 3] \<and>
   change_quantiles_mean_spec [Some 1, Some 2, Some 4, Some 7] 0 1 True = Inr (Some (5 / 2))"
proof -
  have d: "diff_s [Some 1, Some 2, Some 4, Some 7] = [None, Some 1, Some 2, Some 3]"
    by (simp add: diff_s_def shift_def)
  have a: "abs_s [None, Some 1, Some 2, Some 3] = [None, Some 1, Some 2, Some 3]"
    by (simp add: abs_s_def)
  have 1: "change_quantiles [Some 1, Some 2, Some 4, Some 7] 0 1 True = Inr [Some 2, Some 3]"
    by (simp add: change_quantiles_def d a quantile_123 bind_def is_between_def
        shift_and_fill_def and_k_def filter_s_def)
  have 2: "change_quantiles_mean_spec [Some 1, Some 2, Some 4, Some 7] 0 1 True
             = Inr (Some (5 / 2))"
    by (simp add: change_quantiles_mean_spec_def change_series_1247 quantile_123 bind_def
        qualifying_123 abs_s_def mean_s_def drop_nulls_def)
  show ?thesis using 1 2 by simp
qed


subsection \<open>Fit, transform and fit-transform\<close>

lemma getitem_0: "getitem xs 0 = (case xs of [] \<Rightarrow> Inl IndexError | x # _ \<Rightarrow> Inr x)"
  by (cases xs) (auto simp: getitem_def)

text \<open>
  C9, as amended. With the principal-component model, for every panel and every target
  dimension, \<^verbatim>\<open>fit\<close> followed by \<^verbatim>\<open>X_reduced\<close> yields an embedding exactly when
  \<^verbatim>\<open>fit_transform\<close> returns that embedding on the same input, and fails exactly when
  \<^verbatim>\<open>fit_transform\<close> fails, with the same error.
\<close>

theorem fit_roundtrip:
  assumes "model s = ''PCA''"
  shows "(fit_then_X_reduced env s X target_dim kwargs = Inr emb
            \<longleftrightarrow> (\<exists>s'. fit_transform env s X target_dim kwargs = Inr (Some emb, s'))) \<and>
         (fit_then_X_reduced env s X target_dim kwargs = Inl e
            \<longleftrightarrow> fit_transform env s X target_dim kwargs = Inl e)"
proof (cases X)
  case Nil
  then show ?thesis
    by (simp add: fit_then_X_reduced_def fit_def fit_transform_def getitem_0 columns_def)
next
  case (Cons c rest)
  then have id_col: "getitem (columns X) 0 = Inr (fst c)"
    by (simp add: getitem_0 columns_def)
  show ?thesis
  proof (cases "calculate env X")
    case (Inl err)
    then have "calculate_features env s X = Inl err"
      using Cons by (simp add: calculate_features_def)
    then show ?thesis
      by (simp add: fit_then_X_reduced_def fit_def fit_transform_def id_col)
  next
    case (Inr r)
    obtain ids feats where r: "r = (ids, feats)" by (cases r)
    define F where "F = (fst c, ids) # feats"
    have cf: "calculate_features env s X = Inr (F, s\<lparr>X_features := Some F\<rparr>)"
      using Inr r Cons by (simp add: calculate_features_def F_def Let_def)
    have first: "getitem (columns F) 0 = Inr (fst c)"
      by (simp add: getitem_0 columns_def F_def)
    show ?thesis
    proof (cases "pca env (select_exclude (fst c) F) target_dim kwargs")
      case (Inl err)
      then show ?thesis
        using assms
        by (simp add: fit_then_X_reduced_def fit_def fit_transform_def id_col cf fit_pca_def)
    next
      case st: (Inr st)
      show ?thesis
        using assms st first
        by (cases "transform env st (select_exclude (fst c) F)")
           (simp_all add: fit_then_X_reduced_def fit_def fit_transform_def id_col cf
              fit_pca_def X_reduced_def)
    qed
  qed
qed

theorem fit_roundtrip_witness:
  "model \<lparr>model = ''PCA'', X_features = None, state_model = None\<rparr> = ''PCA'' \<and>
   fit_then_X_reduced demo_env \<lparr>model = ''PCA'', X_features = None, state_model = None\<rparr>
       demo_panel 1 () = Inr [(''mean'', [Some 3, Some 5])] \<and>
   (\<exists>s'. fit_transform demo_env \<lparr>model = ''PCA'', X_features = None, state_model = None\<rparr>
       demo_panel 1 () = Inr (Some [(''mean'', [Some 3, Some 5])], s'))"
proof -
  let ?s = "\<lparr>model = ''PCA'', X_features = None, state_model = (None :: int option)\<rparr>"
  have m: "model ?s = ''PCA''" by simp
  have r: "fit_then_X_reduced demo_env ?s demo_panel 1 () = Inr [(''mean'', [Some 3, Some 5])]"
    by (simp add: fit_then_X_reduced_def fit_def X_reduced_def calculate_features_def
        fit_pca_def demo_env_def demo_panel_def columns_def getitem_def select_exclude_def
        shape_def Let_def)
  show ?thesis
    using m r fit_roundtrip[OF m, of demo_env demo_panel 1 "()" "[(''mean'', [Some 3, Some 5])]"]
    by simp
qed

text \<open>
  C9, as stated, fails: the class accepts the model name \<^verbatim>\<open>TSNE\<close>, for which both
  methods do nothing after the feature table. Then \<^verbatim>\<open>fit_transform\<close> returns
  \<^verbatim>\<open>None\<close>, while after \<^verbatim>\<open>fit\<close> there is no fitted model and \<^verbatim>\<open>X_reduced\<close>
  raises \<^verbatim>\<open>AttributeError\<close>; the target dimension 1 is within the two rows and two
  columns of the feature matrix.
\<close>

theorem fit_roundtrip_tsne_counterexample:
  "fit_then_X_reduced demo_env \<lparr>model = ''TSNE'', X_features = None, state_model = None\<rparr>
       demo_panel 1 () = Inl AttributeError \<and>
   fit_transform demo_env \<lparr>model = ''TSNE'', X_features = None, state_model = None\<rparr>
       demo_panel 1 ()
     = Inr (None,
            \<lparr>model = ''TSNE'',
             X_features = Some [(''entity'', [Some 1, Some 2]),
                                (''mean'', [Some 3, Some 5]),
                                (''energy'', [Some 4, Some 6])],
             state_model = None\<rparr>)"
  by (simp add: fit_then_X_reduced_def fit_def fit_transform_def X_reduced_def
      calculate_features_def demo_env_def demo_panel_def columns_def getitem_def
      select_exclude_def Let_def)


end
